theory Spec2Isabelle
  imports Main "HOL-Library.Word"
begin

section \<open>Go values behind \<open>interface{}\<close>\<close>

text \<open>
  The kinds of \<open>reflect.Kind\<close> that a type can have. (\<open>reflect.Invalid\<close> is the kind
  of the zero \<open>reflect.Value\<close> only; no \<open>reflect.Type\<close> reports it.) \<open>reflect.Int\<close> is
  written \<open>IntKind\<close>.
\<close>

datatype kind =
    Bool | IntKind | Int8 | Int16 | Int32 | Int64
  | Uint | Uint8 | Uint16 | Uint32 | Uint64 | Uintptr
  | Float32 | Float64 | Complex64 | Complex128
  | Array | Chan | Func | Interface | Map | Pointer | Slice | String | Struct
  | UnsafePointer

text \<open>
  A value of static type \<open>interface{}\<close>: the nil interface, a Go \<open>string\<close> (the type
  \<open>ConvertSlice\<close> returns), or any other value, given by the kind of its dynamic type and
  an opaque payload. The package looks at nothing but the kind.
\<close>

datatype 'a iface = NilIface | StringValue string | Dyn kind 'a

text \<open>Runtime panics of the Go code.\<close>

datatype panic = NilDereference | IndexOutOfRange | InterfaceConversion

text \<open>
  \<open>reflect.TypeOf(v)\<close>: nil for the nil interface, otherwise the dynamic type, of which
  only the kind is modelled.
\<close>

fun TypeOf :: "'a iface \<Rightarrow> kind option" where
  "TypeOf NilIface = None"
| "TypeOf (StringValue s) = Some String"
| "TypeOf (Dyn k x) = Some k"

text \<open>\<open>rt.Kind()\<close>: a method call on a nil \<open>reflect.Type\<close> panics.\<close>

fun Kind :: "kind option \<Rightarrow> panic + kind" where
  "Kind None = Inl NilDereference"
| "Kind (Some k) = Inr k"

section \<open>The PGModel interface\<close>

text \<open>
  A value implementing \<open>PGModel\<close>, given by what its eight methods return; the methods are
  taken to be pure. \<open>ColumnCount\<close> is a Go \<open>int\<close> (64 bits, two's complement).
\<close>

record 'a PGModel =
  PrimaryKey :: string
  PrimaryKeyValue :: "'a iface"
  SchemaName :: string
  TableName :: string
  ColumnCount :: "64 word"
  NonPKColumns :: "string list"
  NonPKValues :: "'a iface list"
  ConvertSlice :: "string \<Rightarrow> string"

section \<open>Library functions\<close>

text \<open>\<open>strings.Join(elems, sep)\<close>.\<close>

fun Join :: "string list \<Rightarrow> string \<Rightarrow> string" where
  "Join [] sep = []"
| "Join [x] sep = x"
| "Join (x # y # ys) sep = x @ sep @ Join (y # ys) sep"

text \<open>
  \<open>fmt.Sprintf(format, args...)\<close> for string arguments and the verb \<open>%s\<close>, the only verb
  the package uses: each \<open>%s\<close> is replaced by the next argument, a \<open>%s\<close> with no
  argument left prints \<open>%!s(MISSING)\<close>, arguments left over are listed after
  \<open>%!(EXTRA\<close>, and every other character is copied.
\<close>

fun Sprintf :: "string \<Rightarrow> string list \<Rightarrow> string" where
  "Sprintf [] [] = []"
| "Sprintf [] (a # as) =
     ''%!(EXTRA '' @ Join (map (\<lambda>x. ''string='' @ x) (a # as)) '', '' @ '')''"
| "Sprintf [c] args = c # Sprintf [] args"
| "Sprintf (c # d # fmt) args =
     (if c = CHR ''%'' \<and> d = CHR ''s''
      then (case args of
              [] \<Rightarrow> ''%!s(MISSING)'' @ Sprintf fmt []
            | a # as \<Rightarrow> a @ Sprintf fmt as)
      else c # Sprintf (d # fmt) args)"

text \<open>
  The line break inside the raw string literals of the queries: a newline followed by
  the two tabs that indent the next line of the literal in the source file.
\<close>

abbreviation lineBreak :: string where
  "lineBreak \<equiv> [CHR 0x0A, CHR 0x09, CHR 0x09]"

section \<open>What is handed to the transaction\<close>

text \<open>
  The package executes nothing itself: each exported function ends in one call of
  \<open>t.QueryOne\<close> or \<open>t.Query\<close> and returns what that call returns. The model returns
  the call: the destination the rows are scanned into, the query text and the
  parameters.
\<close>

datatype 'a dest = Model "'a PGModel" | Models "'a PGModel list"

datatype 'a txcall =
    QueryOne "'a dest" string "'a iface list"
  | Query "'a dest" string "'a iface list"

fun queryText :: "'a txcall \<Rightarrow> string" where
  "queryText (QueryOne d q ps) = q"
| "queryText (Query d q ps) = q"

fun queryParams :: "'a txcall \<Rightarrow> 'a iface list" where
  "queryParams (QueryOne d q ps) = ps"
| "queryParams (Query d q ps) = ps"

section \<open>Non-exported functions\<close>

definition createGetQuery :: "'a PGModel \<Rightarrow> string \<Rightarrow> 'a iface \<Rightarrow> string" where
  "createGetQuery pm queryKey queryValue =
     (let sn = SchemaName pm;
          tn = TableName pm
      in Sprintf (''SELECT * FROM %s.%s'' @ lineBreak @ ''WHERE %s = ?'')
           [sn, tn, queryKey])"

text \<open>
  The loop of \<open>createSaveQuery\<close>: \<open>for i := 0; i < cc-1; i++\<close>. The bound \<open>cc-1\<close> is
  computed on 64-bit integers and compared as a signed number; \<open>i\<close> counts up from 0
  and stays below the bound, so it never wraps. \<open>npkc[i]\<close> panics out of range.
\<close>

function createSaveQuery_loop ::
  "string list \<Rightarrow> 64 word \<Rightarrow> nat \<Rightarrow> string list \<Rightarrow> string list
     \<Rightarrow> panic + (string list \<times> string list)" where
  "createSaveQuery_loop npkc cc i im sm =
     (if int i < sint (cc - 1)
      then (if i < length npkc
            then createSaveQuery_loop npkc cc (i + 1)
                   (im @ [''?'']) (sm @ [Sprintf ''%s = ?'' [npkc ! i]])
            else Inl IndexOutOfRange)
      else Inr (im, sm))"
  by pat_completeness auto
termination
  by (relation "measure (\<lambda>(npkc, cc, i, im, sm). nat (sint (cc - 1)) - i)") auto

definition createSaveQuery :: "'a PGModel \<Rightarrow> panic + string" where
  "createSaveQuery pm =
     (let pk = PrimaryKey pm;
          sn = SchemaName pm;
          tn = TableName pm;
          cc = ColumnCount pm;
          npkc = NonPKColumns pm;
          c = [pk] @ npkc
      in case createSaveQuery_loop npkc cc 0 [''?''] [] of
           Inl e \<Rightarrow> Inl e
         | Inr (im, sm) \<Rightarrow>
             Inr (Sprintf
                    (''INSERT INTO %s.%s (%s) '' @ lineBreak @
                     ''VALUES (%s) '' @ lineBreak @
                     ''ON CONFLICT (%s) '' @ lineBreak @
                     ''DO UPDATE'' @ lineBreak @
                     ''SET %s '' @ lineBreak @
                     ''WHERE %s.%s = ?'')
                    [sn, tn, Join c '', '', Join im '', '', pk, Join sm '', '', tn, pk]))"

definition createDeleteQuery :: "'a PGModel \<Rightarrow> string" where
  "createDeleteQuery pm =
     (let pk = PrimaryKey pm;
          sn = SchemaName pm;
          tn = TableName pm
      in Sprintf (''DELETE FROM %s.%s'' @ lineBreak @ ''WHERE %s.%s = ?'')
           [sn, tn, tn, pk])"

text \<open>
  An earlier revision of the same file is also in the repository. Its
  \<open>createDeleteQuery\<close> qualifies the column of the \<open>WHERE\<close> clause with the schema
  name where the current one uses the table name.
\<close>

definition createDeleteQuery_earlier :: "'a PGModel \<Rightarrow> string" where
  "createDeleteQuery_earlier pm =
     (let pk = PrimaryKey pm;
          sn = SchemaName pm;
          tn = TableName pm
      in Sprintf (''DELETE FROM %s.%s'' @ lineBreak @ ''WHERE %s.%s = ?'')
           [sn, tn, sn, pk])"

definition convertVariable :: "'a PGModel \<Rightarrow> 'a iface \<Rightarrow> string \<Rightarrow> panic + 'a iface" where
  "convertVariable pm v c =
     (let rt = TypeOf v
      in case Kind rt of
           Inl e \<Rightarrow> Inl e
         | Inr k \<Rightarrow>
             (case k of
                Slice \<Rightarrow> Inr (StringValue (ConvertSlice pm c))
              | _ \<Rightarrow> Inr v))"

text \<open>
  The loop of \<open>convertVariables\<close>: \<open>for i, u := range pm.NonPKValues()\<close>. The argument
  \<open>pm.NonPKColumns()[i]\<close> is evaluated (and may panic) before \<open>convertVariable\<close> is
  called.
\<close>

fun convertVariables_loop ::
  "'a PGModel \<Rightarrow> 'a iface list \<Rightarrow> nat \<Rightarrow> 'a iface list \<Rightarrow> panic + 'a iface list" where
  "convertVariables_loop pm [] i cv = Inr cv"
| "convertVariables_loop pm (u # us) i cv =
     (if i < length (NonPKColumns pm)
      then (case convertVariable pm u (NonPKColumns pm ! i) of
              Inl e \<Rightarrow> Inl e
            | Inr w \<Rightarrow> convertVariables_loop pm us (i + 1) (cv @ [w]))
      else Inl IndexOutOfRange)"

definition convertVariables :: "'a PGModel \<Rightarrow> panic + 'a iface list" where
  "convertVariables pm = convertVariables_loop pm (NonPKValues pm) 0 []"

section \<open>Exported functions\<close>

definition Get :: "'a PGModel \<Rightarrow> string \<Rightarrow> 'a iface \<Rightarrow> 'a txcall" where
  "Get pm queryKey queryValue =
     QueryOne (Model pm) (createGetQuery pm queryKey queryValue) [queryValue]"

text \<open>
  \<open>GetMany\<close> starts with
  \<open>m := reflect.New(reflect.TypeOf(pm)).Elem().Interface().(PGModel)\<close>.
  The parameter \<open>pm\<close> has the static type \<open>[]PGModel\<close>, so \<open>reflect.TypeOf(pm)\<close> is
  that slice type whatever the slice holds; \<open>reflect.New\<close> allocates its zero value and
  \<open>Elem().Interface()\<close> reads it back: the nil slice of type \<open>[]PGModel\<close>, as an
  \<open>interface{}\<close>.
\<close>

datatype 'a reflected = SliceValue "'a PGModel list" | ModelValue "'a PGModel"

definition reflectNewElem :: "'a PGModel list \<Rightarrow> 'a reflected" where
  "reflectNewElem pm = SliceValue []"

text \<open>
  The type assertion \<open>x.(PGModel)\<close> in its one-result form: it panics unless the
  dynamic type of \<open>x\<close> implements \<open>PGModel\<close>. A slice type has no methods.
\<close>

fun assertPGModel :: "'a reflected \<Rightarrow> panic + 'a PGModel" where
  "assertPGModel (ModelValue m) = Inr m"
| "assertPGModel (SliceValue s) = Inl InterfaceConversion"

definition GetMany :: "'a PGModel list \<Rightarrow> string \<Rightarrow> 'a iface \<Rightarrow> panic + 'a txcall" where
  "GetMany pm queryKey queryValue =
     (case assertPGModel (reflectNewElem pm) of
        Inl e \<Rightarrow> Inl e
      | Inr m \<Rightarrow> Inr (Query (Models pm) (createGetQuery m queryKey queryValue) [queryValue]))"

definition Save :: "'a PGModel \<Rightarrow> panic + 'a txcall" where
  "Save pm =
     (case convertVariable pm (PrimaryKeyValue pm) (PrimaryKey pm) of
        Inl e \<Rightarrow> Inl e
      | Inr pkv \<Rightarrow>
          (case convertVariables pm of
             Inl e \<Rightarrow> Inl e
           | Inr npkv \<Rightarrow>
               (let v = [pkv] @ npkv;
                    tv = v @ npkv;
                    tv = tv @ [pkv]
                in case createSaveQuery pm of
                     Inl e \<Rightarrow> Inl e
                   | Inr q \<Rightarrow> Inr (Query (Model pm) q tv))))"

definition Delete :: "'a PGModel \<Rightarrow> 'a txcall" where
  "Delete pm = Query (Model pm) (createDeleteQuery pm) [PrimaryKeyValue pm]"

section \<open>The example record\<close>

text \<open>
  The record type \<open>Bar\<close> of the README: table \<open>foo.bars\<close> with primary key \<open>id\<close>
  (a \<open>uuid.UUID\<close>, an array of 16 bytes) and the columns \<open>name\<close> (a string) and
  \<open>value\<close> (an int). Its \<open>ConvertSlice\<close> formats floating-point numbers and is left
  as a parameter.
\<close>

definition Bar :: "'a \<Rightarrow> string \<Rightarrow> 'a \<Rightarrow> (string \<Rightarrow> string) \<Rightarrow> 'a PGModel" where
  "Bar ident name val cs =
     \<lparr> PrimaryKey = ''id'',
       PrimaryKeyValue = Dyn Array ident,
       SchemaName = ''foo'',
       TableName = ''bars'',
       ColumnCount = 3,
       NonPKColumns = [''name'', ''value''],
       NonPKValues = [StringValue name, Dyn IntKind val],
       ConvertSlice = cs \<rparr>"

text \<open>
  The struct \<open>Bar\<close> of the README also has a field \<open>Values []float64\<close>, which its
  \<open>ConvertSlice\<close> renders for the column \<open>values\<close>. \<open>BarValues\<close> is \<open>Bar\<close> with
  that column listed among the non-key columns.
\<close>

definition BarValues :: "'a \<Rightarrow> string \<Rightarrow> 'a \<Rightarrow> 'a \<Rightarrow> (string \<Rightarrow> string) \<Rightarrow> 'a PGModel" where
  "BarValues ident name val vals cs =
     (Bar ident name val cs)
       \<lparr> ColumnCount := 4,
         NonPKColumns := [''name'', ''value'', ''values''],
         NonPKValues := [StringValue name, Dyn IntKind val, Dyn Slice vals] \<rparr>"

section \<open>Auxiliary facts\<close>

declare createSaveQuery_loop.simps [simp del]

lemma createSaveQuery_loop_closed:
  assumes n_def: "n = nat (sint (cc - 1))"
  shows "createSaveQuery_loop npkc cc i im sm =
     (if n \<le> i then Inr (im, sm)
      else if n \<le> length npkc
      then Inr (im @ replicate (n - i) ''?'',
                sm @ map (\<lambda>c. c @ '' = ?'') (drop i (take n npkc)))
      else Inl IndexOutOfRange)"
  using n_def
proof (induction npkc cc i im sm rule: createSaveQuery_loop.induct)
  case (1 npkc cc i im sm)
  note n_def = \<open>n = nat (sint (cc - 1))\<close>
  have cond: "int i < sint (cc - 1) \<longleftrightarrow> i < n"
    by (auto simp: n_def)
  show ?case
  proof (cases "i < n")
    case False
    then show ?thesis
      using cond by (subst createSaveQuery_loop.simps) (simp add: n_def)
  next
    case lt: True
    show ?thesis
    proof (cases "i < length npkc")
      case False
      with lt cond show ?thesis
        by (subst createSaveQuery_loop.simps) (simp add: n_def)
    next
      case True
      have step: "createSaveQuery_loop npkc cc i im sm =
          createSaveQuery_loop npkc cc (i + 1) (im @ [''?'']) (sm @ [npkc ! i @ '' = ?''])"
        using lt cond True by (subst createSaveQuery_loop.simps) simp
      have rep: "replicate (n - i) ''?'' = ''?'' # replicate (n - (i + 1)) ''?''"
        using lt by (cases "n - i") auto
      have dr: "n \<le> length npkc \<Longrightarrow>
          drop i (take n npkc) = npkc ! i # drop (i + 1) (take n npkc)"
        using lt True by (simp add: Cons_nth_drop_Suc [symmetric])
      have ih: "createSaveQuery_loop npkc cc (i + 1) (im @ [''?'']) (sm @ [npkc ! i @ '' = ?'']) =
         (if n \<le> i + 1 then Inr (im @ [''?''], sm @ [npkc ! i @ '' = ?''])
          else if n \<le> length npkc
          then Inr ((im @ [''?'']) @ replicate (n - (i + 1)) ''?'',
                (sm @ [npkc ! i @ '' = ?'']) @ map (\<lambda>c. c @ '' = ?'') (drop (i + 1) (take n npkc)))
          else Inl IndexOutOfRange)"
        using "1.IH" lt cond True by (simp add: n_def)
      show ?thesis
        unfolding step ih using lt True rep dr
        by (auto simp: not_le)
    qed
  qed
qed

lemma count_Join:
  "count_list (Join xs sep) c =
     sum_list (map (\<lambda>x. count_list x c) xs) + (length xs - 1) * count_list sep c"
  by (induction xs sep rule: Join.induct) simp_all

lemma count_Join_marks: "count_list (Join (replicate m ''?'') '', '') (CHR ''?'') = m"
  by (simp add: count_Join sum_list_replicate)

lemma sum_count_free:
  "\<forall>s \<in> set xs. c \<notin> set s \<Longrightarrow> sum_list (map (\<lambda>x. count_list x c) xs) = 0"
  by (induction xs) simp_all

lemma count_Join_free:
  "\<forall>s \<in> set xs. CHR ''?'' \<notin> set s \<Longrightarrow> count_list (Join xs '', '') (CHR ''?'') = 0"
  by (simp add: count_Join sum_count_free)

lemma count_Join_assign:
  "\<forall>s \<in> set xs. CHR ''?'' \<notin> set s \<Longrightarrow>
     count_list (Join (map (\<lambda>c. c @ '' = ?'') xs) '', '') (CHR ''?'') = length xs"
  by (induction xs) (simp_all add: count_Join o_def)

lemma sint_pred:
  fixes cc :: "64 word"
  assumes "1 \<le> sint cc"
  shows "sint (cc - 1) = sint cc - 1"
proof -
  have "sint cc < 2 ^ 63" using sint_lt [of cc] by simp
  with assms have "signed_take_bit 63 (sint cc - 1) = sint cc - 1"
    by (intro signed_take_bit_int_eq_self) simp_all
  then show ?thesis by (simp add: sint_word_diff)
qed

lemma convertVariable_nonnil:
  "v \<noteq> NilIface \<Longrightarrow>
     convertVariable pm v c =
       Inr (if TypeOf v = Some Slice then StringValue (ConvertSlice pm c) else v)"
proof (cases v)
  case (Dyn k x)
  then show ?thesis by (cases k) (simp_all add: convertVariable_def)
qed (simp_all add: convertVariable_def)

lemma convertVariable_nil: "convertVariable pm NilIface c = Inl NilDereference"
  by (simp add: convertVariable_def)

lemma convertVariables_loop_Inr:
  "convertVariables_loop pm us i cv = Inr r \<longleftrightarrow>
     NilIface \<notin> set us \<and> (us = [] \<or> i + length us \<le> length (NonPKColumns pm)) \<and>
     r = cv @ map2 (\<lambda>u c. if TypeOf u = Some Slice then StringValue (ConvertSlice pm c) else u)
               us (drop i (NonPKColumns pm))"
proof (induction us arbitrary: i cv)
  case Nil
  then show ?case by auto
next
  case (Cons u us)
  show ?case
  proof (cases "u = NilIface")
    case True
    then show ?thesis by (simp add: convertVariable_nil)
  next
    case False
    show ?thesis
    proof (cases "i < length (NonPKColumns pm)")
      case False
      then show ?thesis by simp
    next
      case True
      then have dr: "drop i (NonPKColumns pm) = NonPKColumns pm ! i # drop (i + 1) (NonPKColumns pm)"
        by (simp add: Cons_nth_drop_Suc)
      show ?thesis
        using \<open>u \<noteq> NilIface\<close> True Cons.IH [of "i + 1"]
        by (cases us) (auto simp: convertVariable_nonnil dr)
    qed
  qed
qed

lemma convertVariables_loop_nil:
  "NilIface \<in> set us \<Longrightarrow> i + length us \<le> length (NonPKColumns pm) \<Longrightarrow>
     convertVariables_loop pm us i cv = Inl NilDereference"
proof (induction us arbitrary: i cv)
  case Nil
  then show ?case by simp
next
  case (Cons u us)
  then show ?case
    by (cases "u = NilIface") (auto simp: convertVariable_nil convertVariable_nonnil)
qed

lemma createSaveQuery_closed:
  "createSaveQuery pm =
     (if nat (sint (ColumnCount pm - 1)) \<le> length (NonPKColumns pm)
      then Inr (''INSERT INTO '' @ SchemaName pm @ ''.'' @ TableName pm @ '' ('' @
                  Join (PrimaryKey pm # NonPKColumns pm) '', '' @ '') '' @ lineBreak @
                ''VALUES ('' @
                  Join (replicate (nat (sint (ColumnCount pm - 1)) + 1) ''?'') '', '' @
                  '') '' @ lineBreak @
                ''ON CONFLICT ('' @ PrimaryKey pm @ '') '' @ lineBreak @
                ''DO UPDATE'' @ lineBreak @
                ''SET '' @
                  Join (map (\<lambda>c. c @ '' = ?'')
                          (take (nat (sint (ColumnCount pm - 1))) (NonPKColumns pm))) '', '' @
                  '' '' @ lineBreak @
                ''WHERE '' @ TableName pm @ ''.'' @ PrimaryKey pm @ '' = ?'')
      else Inl IndexOutOfRange)"
proof -
  have "createSaveQuery_loop (NonPKColumns pm) (ColumnCount pm) 0 [''?''] [] =
     (if nat (sint (ColumnCount pm - 1)) \<le> length (NonPKColumns pm)
      then Inr (replicate (nat (sint (ColumnCount pm - 1)) + 1) ''?'',
                map (\<lambda>c. c @ '' = ?'') (take (nat (sint (ColumnCount pm - 1))) (NonPKColumns pm)))
      else Inl IndexOutOfRange)"
    by (subst createSaveQuery_loop_closed [OF refl]) auto
  then show ?thesis
    by (simp add: createSaveQuery_def Let_def)
qed

lemma GetMany_panics: "GetMany pm queryKey queryValue = Inl InterfaceConversion"
  by (simp add: GetMany_def reflectNewElem_def)

lemma createDeleteQuery_earlier_text:
  "createDeleteQuery_earlier pm =
     ''DELETE FROM '' @ SchemaName pm @ ''.'' @ TableName pm @ lineBreak @
     ''WHERE '' @ SchemaName pm @ ''.'' @ PrimaryKey pm @ '' = ?''"
  by (simp add: createDeleteQuery_earlier_def Let_def)

lemma convertVariable_Inr_nonnil: "convertVariable pm v c = Inr w \<Longrightarrow> v \<noteq> NilIface"
  by (auto simp: convertVariable_nil)

lemma convertVariables_Inr:
  "convertVariables pm = Inr r \<longleftrightarrow>
     NilIface \<notin> set (NonPKValues pm) \<and>
     (NonPKValues pm = [] \<or> length (NonPKValues pm) \<le> length (NonPKColumns pm)) \<and>
     r = map2 (\<lambda>u c. if TypeOf u = Some Slice then StringValue (ConvertSlice pm c) else u)
           (NonPKValues pm) (NonPKColumns pm)"
  by (simp add: convertVariables_def convertVariables_loop_Inr)

lemma convertVariables_elements:
  assumes "convertVariables pm = Inr npkv"
  shows "length npkv = length (NonPKValues pm)"
    and "i < length npkv \<Longrightarrow>
           convertVariable pm (NonPKValues pm ! i) (NonPKColumns pm ! i) = Inr (npkv ! i)"
proof -
  from assms have nn: "NilIface \<notin> set (NonPKValues pm)"
    and len: "NonPKValues pm = [] \<or> length (NonPKValues pm) \<le> length (NonPKColumns pm)"
    and r: "npkv = map2 (\<lambda>u c. if TypeOf u = Some Slice then StringValue (ConvertSlice pm c) else u)
           (NonPKValues pm) (NonPKColumns pm)"
    by (simp_all add: convertVariables_Inr)
  from len r show l: "length npkv = length (NonPKValues pm)" by auto
  assume i: "i < length npkv"
  with l have "NonPKValues pm ! i \<in> set (NonPKValues pm)" by simp
  with nn have "NonPKValues pm ! i \<noteq> NilIface" by metis
  moreover from i r have "npkv ! i =
      (if TypeOf (NonPKValues pm ! i) = Some Slice
       then StringValue (ConvertSlice pm (NonPKColumns pm ! i)) else NonPKValues pm ! i)"
    by simp
  ultimately show "convertVariable pm (NonPKValues pm ! i) (NonPKColumns pm ! i) = Inr (npkv ! i)"
    by (simp add: convertVariable_nonnil)
qed

lemma Save_Inr:
  assumes "Save pm = Inr call"
  shows "\<exists>pkv npkv q.
           convertVariable pm (PrimaryKeyValue pm) (PrimaryKey pm) = Inr pkv \<and>
           convertVariables pm = Inr npkv \<and>
           createSaveQuery pm = Inr q \<and>
           call = Query (Model pm) q ([pkv] @ npkv @ npkv @ [pkv])"
  using assms by (auto simp: Save_def Let_def split: sum.splits)

lemma Save_total:
  assumes "PrimaryKeyValue pm \<noteq> NilIface" and "NilIface \<notin> set (NonPKValues pm)"
    and "length (NonPKValues pm) \<le> length (NonPKColumns pm)"
    and "nat (sint (ColumnCount pm - 1)) \<le> length (NonPKColumns pm)"
  shows "\<exists>call. Save pm = Inr call"
proof -
  from assms(1) obtain pkv where "convertVariable pm (PrimaryKeyValue pm) (PrimaryKey pm) = Inr pkv"
    by (simp add: convertVariable_nonnil)
  moreover from assms(2,3) obtain npkv where "convertVariables pm = Inr npkv"
    by (simp add: convertVariables_Inr)
  moreover from assms(4) obtain q where "createSaveQuery pm = Inr q"
    by (simp add: createSaveQuery_closed)
  ultimately show ?thesis by (simp add: Save_def Let_def)
qed

section \<open>The upsert text and its placeholders\<close>

text \<open>
  Claim C1, as stated, for every record whose \<open>NonPKColumns\<close> has length
  \<open>ColumnCount() - 1\<close>: the text of \<open>createSaveQuery\<close> holds exactly
  \<open>2 * ColumnCount()\<close> characters \<open>?\<close>. The names are copied into the text as they
  are, so a \<open>?\<close> inside a name is one more \<open>?\<close> of the text: the record \<open>Bar\<close> with
  its second column renamed \<open>value?\<close> has three columns and a text with eight.
\<close>

theorem createSaveQuery_placeholders_counterexample:
  "int (length (NonPKColumns ((Bar (1::int) ''n'' 2 id)\<lparr>NonPKColumns := [''name'', ''value?'']\<rparr>))) =
     sint (ColumnCount ((Bar (1::int) ''n'' 2 id)\<lparr>NonPKColumns := [''name'', ''value?'']\<rparr>)) - 1 \<and>
   createSaveQuery ((Bar (1::int) ''n'' 2 id)\<lparr>NonPKColumns := [''name'', ''value?'']\<rparr>) =
     Inr (''INSERT INTO foo.bars (id, name, value?) '' @ lineBreak @
          ''VALUES (?, ?, ?) '' @ lineBreak @
          ''ON CONFLICT (id) '' @ lineBreak @
          ''DO UPDATE'' @ lineBreak @
          ''SET name = ?, value? = ? '' @ lineBreak @
          ''WHERE bars.id = ?'') \<and>
   count_list (''INSERT INTO foo.bars (id, name, value?) '' @ lineBreak @
          ''VALUES (?, ?, ?) '' @ lineBreak @
          ''ON CONFLICT (id) '' @ lineBreak @
          ''DO UPDATE'' @ lineBreak @
          ''SET name = ?, value? = ? '' @ lineBreak @
          ''WHERE bars.id = ?'') (CHR ''?'') = 8 \<and>
   2 * nat (sint (ColumnCount ((Bar (1::int) ''n'' 2 id)\<lparr>NonPKColumns := [''name'', ''value?'']\<rparr>))) = 6"
  by (simp add: createSaveQuery_closed Bar_def eval_nat_numeral)

text \<open>
  Claim C1, amended: for every record whose \<open>NonPKColumns\<close> has length
  \<open>ColumnCount() - 1\<close> and whose primary-key, schema, table and column names hold no
  \<open>?\<close>, \<open>createSaveQuery\<close> returns the upsert text below, and that text holds exactly
  \<open>2 * ColumnCount()\<close> characters \<open>?\<close>: \<open>ColumnCount()\<close> in the \<open>VALUES\<close> list,
  \<open>ColumnCount() - 1\<close> in the \<open>SET\<close> assignments and one in the final \<open>WHERE\<close>.
\<close>

theorem createSaveQuery_placeholders:
  assumes len: "int (length (NonPKColumns pm)) = sint (ColumnCount pm) - 1"
    and free: "\<forall>s \<in> set (PrimaryKey pm # SchemaName pm # TableName pm # NonPKColumns pm).
                 CHR ''?'' \<notin> set s"
  shows "\<exists>q V S.
           createSaveQuery pm = Inr q \<and>
           V = Join (replicate (nat (sint (ColumnCount pm))) ''?'') '', '' \<and>
           S = Join (map (\<lambda>c. c @ '' = ?'') (NonPKColumns pm)) '', '' \<and>
           q = ''INSERT INTO '' @ SchemaName pm @ ''.'' @ TableName pm @ '' ('' @
                 Join (PrimaryKey pm # NonPKColumns pm) '', '' @ '') '' @ lineBreak @
               ''VALUES ('' @ V @ '') '' @ lineBreak @
               ''ON CONFLICT ('' @ PrimaryKey pm @ '') '' @ lineBreak @
               ''DO UPDATE'' @ lineBreak @
               ''SET '' @ S @ '' '' @ lineBreak @
               ''WHERE '' @ TableName pm @ ''.'' @ PrimaryKey pm @ '' = ?'' \<and>
           count_list V (CHR ''?'') = nat (sint (ColumnCount pm)) \<and>
           count_list S (CHR ''?'') = nat (sint (ColumnCount pm)) - 1 \<and>
           count_list q (CHR ''?'') = 2 * nat (sint (ColumnCount pm))"
proof -
  let ?n = "length (NonPKColumns pm)"
  from len have pos: "1 \<le> sint (ColumnCount pm)" by linarith
  from len have cc: "nat (sint (ColumnCount pm)) = ?n + 1" by linarith
  from len pos have n: "nat (sint (ColumnCount pm - 1)) = ?n"
    by (simp add: sint_pred)
  from free have f: "CHR ''?'' \<notin> set (PrimaryKey pm)" "CHR ''?'' \<notin> set (SchemaName pm)"
      "CHR ''?'' \<notin> set (TableName pm)" "\<forall>s \<in> set (NonPKColumns pm). CHR ''?'' \<notin> set s"
      "\<forall>s \<in> set (PrimaryKey pm # NonPKColumns pm). CHR ''?'' \<notin> set s"
    by simp_all
  have cV: "count_list (Join (replicate (?n + 1) ''?'') '', '') (CHR ''?'') = ?n + 1"
    by (rule count_Join_marks)
  have cS: "count_list (Join (map (\<lambda>c. c @ '' = ?'') (NonPKColumns pm)) '', '') (CHR ''?'') = ?n"
    using f(4) by (rule count_Join_assign)
  have cC: "count_list (Join (PrimaryKey pm # NonPKColumns pm) '', '') (CHR ''?'') = 0"
    using f(5) by (rule count_Join_free)
  have z: "count_list (PrimaryKey pm) (CHR ''?'') = 0" "count_list (SchemaName pm) (CHR ''?'') = 0"
      "count_list (TableName pm) (CHR ''?'') = 0"
    using f(1-3) by simp_all
  show ?thesis
    unfolding cc
    by (simp only: createSaveQuery_closed n le_refl if_True take_all ex_simps simp_thms
          count_list_append cV cS cC z sum.inject) simp
qed

theorem createSaveQuery_placeholders_witness:
  "int (length (NonPKColumns (Bar (1::int) ''n'' 2 id))) =
     sint (ColumnCount (Bar (1::int) ''n'' 2 id)) - 1 \<and>
   CHR ''?'' \<notin> set ''id'' \<and> CHR ''?'' \<notin> set ''foo'' \<and> CHR ''?'' \<notin> set ''bars'' \<and>
   CHR ''?'' \<notin> set ''name'' \<and> CHR ''?'' \<notin> set ''value'' \<and>
   (\<exists>q. createSaveQuery (Bar (1::int) ''n'' 2 id) = Inr q \<and>
        count_list q (CHR ''?'') = 2 * nat (sint (ColumnCount (Bar (1::int) ''n'' 2 id))) \<and>
        count_list q (CHR ''?'') = 6)"
  using createSaveQuery_placeholders [of "Bar (1::int) ''n'' 2 id"]
  by (simp add: Bar_def)

text \<open>
  Claim C9: for every record with \<open>ColumnCount() = 1\<close>, \<open>createSaveQuery\<close> raises
  nothing and returns a text whose \<open>SET\<close> clause is empty: between \<open>SET\<close> and the
  final \<open>WHERE\<close> there are only two spaces and the line break. (With an empty
  \<open>NonPKColumns\<close> the column list is the primary key alone.)
\<close>

theorem createSaveQuery_single_column:
  assumes "ColumnCount pm = 1"
  shows "createSaveQuery pm =
     Inr (''INSERT INTO '' @ SchemaName pm @ ''.'' @ TableName pm @ '' ('' @
            Join (PrimaryKey pm # NonPKColumns pm) '', '' @ '') '' @ lineBreak @
          ''VALUES (?) '' @ lineBreak @
          ''ON CONFLICT ('' @ PrimaryKey pm @ '') '' @ lineBreak @
          ''DO UPDATE'' @ lineBreak @
          ''SET '' @ [] @ '' '' @ lineBreak @
          ''WHERE '' @ TableName pm @ ''.'' @ PrimaryKey pm @ '' = ?'')"
  using assms by (simp add: createSaveQuery_closed)

theorem createSaveQuery_single_column_witness:
  "ColumnCount \<lparr> PrimaryKey = ''id'', PrimaryKeyValue = Dyn IntKind (1::int),
       SchemaName = ''foo'', TableName = ''ids'', ColumnCount = 1, NonPKColumns = [],
       NonPKValues = [], ConvertSlice = id \<rparr> = 1 \<and>
   createSaveQuery \<lparr> PrimaryKey = ''id'', PrimaryKeyValue = Dyn IntKind (1::int),
       SchemaName = ''foo'', TableName = ''ids'', ColumnCount = 1, NonPKColumns = [],
       NonPKValues = [], ConvertSlice = id \<rparr> =
     Inr (''INSERT INTO foo.ids (id) '' @ lineBreak @
          ''VALUES (?) '' @ lineBreak @
          ''ON CONFLICT (id) '' @ lineBreak @
          ''DO UPDATE'' @ lineBreak @
          ''SET  '' @ lineBreak @
          ''WHERE ids.id = ?'')"
  using createSaveQuery_single_column [of "\<lparr> PrimaryKey = ''id'', PrimaryKeyValue = Dyn IntKind (1::int),
       SchemaName = ''foo'', TableName = ''ids'', ColumnCount = 1, NonPKColumns = [],
       NonPKValues = [], ConvertSlice = id \<rparr>"]
  by simp

section \<open>The example of the README\<close>

text \<open>
  Claim C3, as stated: for the record \<open>Bar\<close> (three columns), \<open>Save\<close> hands over a text
  with five placeholders and five parameters. It hands over six of each.
\<close>

theorem Save_Bar_counterexample:
  "Save (Bar (1::int) ''n'' 2 id) =
     Inr (Query (Model (Bar 1 ''n'' 2 id))
            (''INSERT INTO foo.bars (id, name, value) '' @ lineBreak @
             ''VALUES (?, ?, ?) '' @ lineBreak @
             ''ON CONFLICT (id) '' @ lineBreak @
             ''DO UPDATE'' @ lineBreak @
             ''SET name = ?, value = ? '' @ lineBreak @
             ''WHERE bars.id = ?'')
            [Dyn Array 1, StringValue ''n'', Dyn IntKind 2,
             StringValue ''n'', Dyn IntKind 2, Dyn Array 1]) \<and>
   count_list (''INSERT INTO foo.bars (id, name, value) '' @ lineBreak @
             ''VALUES (?, ?, ?) '' @ lineBreak @
             ''ON CONFLICT (id) '' @ lineBreak @
             ''DO UPDATE'' @ lineBreak @
             ''SET name = ?, value = ? '' @ lineBreak @
             ''WHERE bars.id = ?'') (CHR ''?'') \<noteq> 5 \<and>
   length [Dyn Array (1::int), StringValue ''n'', Dyn IntKind 2,
             StringValue ''n'', Dyn IntKind 2, Dyn Array 1] \<noteq> 5"
  by (simp add: Save_def convertVariables_def convertVariable_def createSaveQuery_closed
        Bar_def eval_nat_numeral)

text \<open>
  Claim C3, amended: for the record \<open>Bar\<close>, \<open>Save\<close> hands over the upsert text with
  3 + 2 + 1 = 6 placeholders and the six parameters
  \<open>[pk, name, value, name, value, pk]\<close>.
\<close>

theorem Save_Bar:
  "\<exists>q ps. Save (Bar ident name val cs) = Inr (Query (Model (Bar ident name val cs)) q ps) \<and>
     q = ''INSERT INTO foo.bars (id, name, value) '' @ lineBreak @
         ''VALUES (?, ?, ?) '' @ lineBreak @
         ''ON CONFLICT (id) '' @ lineBreak @
         ''DO UPDATE'' @ lineBreak @
         ''SET name = ?, value = ? '' @ lineBreak @
         ''WHERE bars.id = ?'' \<and>
     count_list q (CHR ''?'') = 6 \<and>
     ps = [Dyn Array ident, StringValue name, Dyn IntKind val,
           StringValue name, Dyn IntKind val, Dyn Array ident] \<and>
     length ps = 6"
  by (simp add: Save_def convertVariables_def convertVariable_def createSaveQuery_closed
        Bar_def eval_nat_numeral)

section \<open>Get, GetMany and Delete\<close>

text \<open>
  Claim C4 asks \<open>GetMany\<close> to return a type-mismatch error when the elements of the
  collection are not records, and so to run its query when they are. The type
  assertion of \<open>GetMany\<close> is made on the slice type, which has no methods: it panics
  for every collection, here for one whose only element is the record \<open>Bar\<close>, and no
  query is built.
\<close>

theorem GetMany_Bar_panics:
  "GetMany [Bar (1::int) ''n'' 2 id] ''id'' (Dyn Array 1) = Inl InterfaceConversion"
  by (rule GetMany_panics)

text \<open>
  Claim C5, as stated: the text built for \<open>Get\<close> and \<open>GetMany\<close> on \<open>foo.bars\<close> with the
  key \<open>id\<close> is \<open>SELECT * FROM foo.bars WHERE id = ?\<close>. The text of \<open>Get\<close> has a line
  break and two tabs before \<open>WHERE\<close>, not one space, and \<open>GetMany\<close> builds no text.
\<close>

theorem Get_query_counterexample:
  "queryText (Get (Bar (1::int) ''n'' 2 id) ''id'' (Dyn Array 1)) \<noteq>
     ''SELECT * FROM foo.bars WHERE id = ?'' \<and>
   GetMany [Bar (1::int) ''n'' 2 id] ''id'' (Dyn Array 1) = Inl InterfaceConversion"
  by (simp add: Get_def createGetQuery_def Let_def Bar_def GetMany_panics)

text \<open>
  Claim C5, amended: for every record and every \<open>queryKey\<close>, \<open>Get\<close> hands over the
  text \<open>SELECT * FROM <schema>.<table>\<close>, a line break and two tabs, then
  \<open>WHERE <queryKey> = ?\<close>, with the names copied as they are, and \<open>queryValue\<close> as
  the only parameter; for \<open>foo.bars\<close> and the key \<open>id\<close> the text is
  \<open>SELECT * FROM foo.bars\<close>, the line break and two tabs, then \<open>WHERE id = ?\<close>.
\<close>

theorem Get_query:
  "Get pm queryKey queryValue =
     QueryOne (Model pm)
       (''SELECT * FROM '' @ SchemaName pm @ ''.'' @ TableName pm @ lineBreak @
        ''WHERE '' @ queryKey @ '' = ?'')
       [queryValue] \<and>
   Get (Bar ident name val cs) ''id'' queryValue =
     QueryOne (Model (Bar ident name val cs))
       (''SELECT * FROM foo.bars'' @ lineBreak @ ''WHERE id = ?'')
       [queryValue]"
  by (simp add: Get_def createGetQuery_def Let_def Bar_def)

text \<open>
  Claim C6, as stated: \<open>Delete\<close> on \<open>Bar\<close> builds the text
  \<open>DELETE FROM foo.bars WHERE bars.id = ?\<close>. The text has a line break and two tabs
  before \<open>WHERE\<close>, not one space.
\<close>

theorem Delete_query_counterexample:
  "queryText (Delete (Bar (1::int) ''n'' 2 id)) \<noteq> ''DELETE FROM foo.bars WHERE bars.id = ?''"
  by (simp add: Delete_def createDeleteQuery_def Let_def Bar_def)

text \<open>
  Claim C6, amended: for every record, \<open>Delete\<close> hands over the text
  \<open>DELETE FROM <schema>.<table>\<close>, a line break and two tabs, then
  \<open>WHERE <table>.<pk> = ?\<close> (the column is qualified with the table name, not the
  schema name) and one parameter, the primary-key value as the record gives it; for
  \<open>Bar\<close> the text is \<open>DELETE FROM foo.bars\<close>, the line break and two tabs, then
  \<open>WHERE bars.id = ?\<close>.
\<close>

theorem Delete_query:
  "Delete pm =
     Query (Model pm)
       (''DELETE FROM '' @ SchemaName pm @ ''.'' @ TableName pm @ lineBreak @
        ''WHERE '' @ TableName pm @ ''.'' @ PrimaryKey pm @ '' = ?'')
       [PrimaryKeyValue pm] \<and>
   Delete (Bar ident name val cs) =
     Query (Model (Bar ident name val cs))
       (''DELETE FROM foo.bars'' @ lineBreak @ ''WHERE bars.id = ?'')
       [Dyn Array ident]"
  by (simp add: Delete_def createDeleteQuery_def Let_def Bar_def)

section \<open>Marshaling of values\<close>

text \<open>
  Claim C8: \<open>convertVariable\<close> returns every value whose dynamic type is not of kind
  \<open>reflect.Slice\<close> as it is. (An array, such as a \<open>uuid.UUID\<close>, is of kind
  \<open>reflect.Array\<close> and is returned as it is, too.)
\<close>

theorem convertVariable_scalar:
  assumes "TypeOf v = Some k" and "k \<noteq> Slice"
  shows "convertVariable pm v c = Inr v"
proof -
  from assms have "v \<noteq> NilIface" by auto
  with assms show ?thesis by (simp add: convertVariable_nonnil)
qed

theorem convertVariable_scalar_witness:
  "TypeOf (Dyn IntKind (2::int)) = Some IntKind \<and> IntKind \<noteq> Slice \<and>
   convertVariable (Bar 1 ''n'' 2 id) (Dyn IntKind (2::int)) ''value'' = Inr (Dyn IntKind 2)"
  using convertVariable_scalar [of "Dyn IntKind (2::int)" IntKind "Bar 1 ''n'' 2 id" "''value''"]
  by simp

text \<open>
  Claim C7: for every value whose dynamic type is of kind \<open>reflect.Slice\<close>,
  \<open>convertVariable\<close> for the column \<open>c\<close> returns the string that the record's own
  \<open>ConvertSlice\<close> gives for \<open>c\<close> (the method reads the slice from the record; it takes
  the column name only). So in the parameter list of \<open>Save\<close>, a primary key that is a
  slice stands as \<open>ConvertSlice(PrimaryKey())\<close> at both ends, and the \<open>i\<close>-th non-key
  value, when it is a slice, stands as \<open>ConvertSlice(NonPKColumns()[i])\<close> at both of its
  positions.
\<close>

theorem convertVariable_slice:
  "(TypeOf v = Some Slice \<longrightarrow>
      convertVariable pm v c = Inr (StringValue (ConvertSlice pm c))) \<and>
   (Save pm = Inr call \<longrightarrow>
      (TypeOf (PrimaryKeyValue pm) = Some Slice \<longrightarrow>
         hd (queryParams call) = StringValue (ConvertSlice pm (PrimaryKey pm)) \<and>
         last (queryParams call) = StringValue (ConvertSlice pm (PrimaryKey pm))) \<and>
      (\<forall>i<length (NonPKValues pm).
         TypeOf (NonPKValues pm ! i) = Some Slice \<longrightarrow>
           queryParams call ! (1 + i) =
             StringValue (ConvertSlice pm (NonPKColumns pm ! i)) \<and>
           queryParams call ! (1 + length (NonPKValues pm) + i) =
             StringValue (ConvertSlice pm (NonPKColumns pm ! i))))"
proof (intro conjI impI allI)
  assume "TypeOf v = Some Slice"
  then have "v \<noteq> NilIface" by auto
  with \<open>TypeOf v = Some Slice\<close>
  show "convertVariable pm v c = Inr (StringValue (ConvertSlice pm c))"
    by (simp add: convertVariable_nonnil)
next
  assume s: "Save pm = Inr call" and sl: "TypeOf (PrimaryKeyValue pm) = Some Slice"
  from s obtain pkv npkv q where
      pk: "convertVariable pm (PrimaryKeyValue pm) (PrimaryKey pm) = Inr pkv"
      and call: "call = Query (Model pm) q ([pkv] @ npkv @ npkv @ [pkv])"
    using Save_Inr by blast
  from pk sl have "pkv = StringValue (ConvertSlice pm (PrimaryKey pm))"
    using convertVariable_Inr_nonnil [OF pk] by (simp add: convertVariable_nonnil)
  with call show "hd (queryParams call) = StringValue (ConvertSlice pm (PrimaryKey pm))"
    and "last (queryParams call) = StringValue (ConvertSlice pm (PrimaryKey pm))"
    by simp_all
next
  fix i
  assume s: "Save pm = Inr call" and i: "i < length (NonPKValues pm)"
    and sl: "TypeOf (NonPKValues pm ! i) = Some Slice"
  from s obtain pkv npkv q where
      np: "convertVariables pm = Inr npkv"
      and call: "call = Query (Model pm) q ([pkv] @ npkv @ npkv @ [pkv])"
    using Save_Inr by blast
  from np have len: "length npkv = length (NonPKValues pm)"
    by (rule convertVariables_elements)
  from np i len
  have e: "convertVariable pm (NonPKValues pm ! i) (NonPKColumns pm ! i) = Inr (npkv ! i)"
    by (simp add: convertVariables_elements)
  with sl have v: "npkv ! i = StringValue (ConvertSlice pm (NonPKColumns pm ! i))"
    using convertVariable_Inr_nonnil [OF e] by (simp add: convertVariable_nonnil)
  from call i len v
  show "queryParams call ! (1 + i) = StringValue (ConvertSlice pm (NonPKColumns pm ! i))"
    by (simp add: nth_append)
  from call i len v
  show "queryParams call ! (1 + length (NonPKValues pm) + i) =
          StringValue (ConvertSlice pm (NonPKColumns pm ! i))"
    by (simp add: nth_append)
qed

theorem convertVariable_slice_witness:
  "TypeOf (Dyn Slice (3::int)) = Some Slice \<and>
   convertVariable (BarValues (1::int) ''n'' 2 3 (\<lambda>c. ''{'' @ c @ ''}'')) (Dyn Slice 3) ''values'' =
     Inr (StringValue ''{values}'') \<and>
   (\<exists>q. Save (BarValues (1::int) ''n'' 2 3 (\<lambda>c. ''{'' @ c @ ''}'')) =
          Inr (Query (Model (BarValues (1::int) ''n'' 2 3 (\<lambda>c. ''{'' @ c @ ''}''))) q
                 [Dyn Array 1, StringValue ''n'', Dyn IntKind 2, StringValue ''{values}'',
                  StringValue ''n'', Dyn IntKind 2, StringValue ''{values}'', Dyn Array 1]) \<and>
        queryParams (Query (Model (BarValues (1::int) ''n'' 2 3 (\<lambda>c. ''{'' @ c @ ''}''))) q
                 [Dyn Array 1, StringValue ''n'', Dyn IntKind 2, StringValue ''{values}'',
                  StringValue ''n'', Dyn IntKind 2, StringValue ''{values}'', Dyn Array 1]) ! (1 + 2) =
          StringValue (ConvertSlice (BarValues (1::int) ''n'' 2 3 (\<lambda>c. ''{'' @ c @ ''}''))
                         (NonPKColumns (BarValues (1::int) ''n'' 2 3 (\<lambda>c. ''{'' @ c @ ''}'')) ! 2)))"
proof -
  let ?R = "BarValues (1::int) ''n'' 2 3 (\<lambda>c. ''{'' @ c @ ''}'')"
  let ?ps = "[Dyn Array (1::int), StringValue ''n'', Dyn IntKind 2, StringValue ''{values}'',
              StringValue ''n'', Dyn IntKind 2, StringValue ''{values}'', Dyn Array 1]"
  have t: "TypeOf (Dyn Slice (3::int)) = Some Slice" by simp
  from convertVariable_slice [of "Dyn Slice 3" ?R "''values''"] t
  have "convertVariable ?R (Dyn Slice 3) ''values'' = Inr (StringValue (ConvertSlice ?R ''values''))"
    by blast
  then have c: "convertVariable ?R (Dyn Slice 3) ''values'' = Inr (StringValue ''{values}'')"
    by (simp add: BarValues_def Bar_def)
  have "\<exists>q. Save ?R = Inr (Query (Model ?R) q ?ps)"
    by (simp add: Save_def convertVariables_def convertVariable_def createSaveQuery_closed
        BarValues_def Bar_def)
  then obtain q where s: "Save ?R = Inr (Query (Model ?R) q ?ps)" ..
  have i: "2 < length (NonPKValues ?R)" "TypeOf (NonPKValues ?R ! 2) = Some Slice"
    by (simp_all add: BarValues_def Bar_def)
  from convertVariable_slice [of "Dyn Slice 3" ?R "''values''" "Query (Model ?R) q ?ps"] s i
  have "queryParams (Query (Model ?R) q ?ps) ! (1 + 2) =
          StringValue (ConvertSlice ?R (NonPKColumns ?R ! 2))"
    by blast
  with t c s show ?thesis by blast
qed

text \<open>
  Claim C2: whenever \<open>Save\<close> hands a call to the transaction, its parameter list is
  the marshaled primary-key value, then the marshaled non-key values in the order of
  \<open>NonPKValues\<close> (the \<open>i\<close>-th marshaled for the \<open>i\<close>-th name of \<open>NonPKColumns\<close>), then
  the same marshaled non-key values again, then the marshaled primary-key value again.
  When no value is a slice, these are the record's own values. \<open>Save\<close> does hand over a
  call when no value is nil, \<open>NonPKColumns\<close> has a name for every value and for every
  round of the loop of \<open>createSaveQuery\<close>.
\<close>

theorem Save_parameter_order:
  "(Save pm = Inr call \<longrightarrow>
      (\<exists>pkv npkv.
         convertVariable pm (PrimaryKeyValue pm) (PrimaryKey pm) = Inr pkv \<and>
         length npkv = length (NonPKValues pm) \<and>
         (\<forall>i<length npkv.
            convertVariable pm (NonPKValues pm ! i) (NonPKColumns pm ! i) = Inr (npkv ! i)) \<and>
         queryParams call = [pkv] @ npkv @ npkv @ [pkv])) \<and>
   (Save pm = Inr call \<longrightarrow>
      (\<forall>v \<in> set (PrimaryKeyValue pm # NonPKValues pm). TypeOf v \<noteq> Some Slice) \<longrightarrow>
      queryParams call =
        [PrimaryKeyValue pm] @ NonPKValues pm @ NonPKValues pm @ [PrimaryKeyValue pm]) \<and>
   (PrimaryKeyValue pm \<noteq> NilIface \<and> NilIface \<notin> set (NonPKValues pm) \<and>
    length (NonPKValues pm) \<le> length (NonPKColumns pm) \<and>
    nat (sint (ColumnCount pm - 1)) \<le> length (NonPKColumns pm) \<longrightarrow>
      (\<exists>c. Save pm = Inr c))"
proof (intro conjI impI)
  assume s: "Save pm = Inr call"
  then obtain pkv npkv q where
      pk: "convertVariable pm (PrimaryKeyValue pm) (PrimaryKey pm) = Inr pkv"
      and np: "convertVariables pm = Inr npkv"
      and call: "call = Query (Model pm) q ([pkv] @ npkv @ npkv @ [pkv])"
    using Save_Inr by blast
  from np have "length npkv = length (NonPKValues pm)"
      and "\<forall>i<length npkv.
            convertVariable pm (NonPKValues pm ! i) (NonPKColumns pm ! i) = Inr (npkv ! i)"
    by (simp_all add: convertVariables_elements)
  with pk call show "\<exists>pkv npkv.
         convertVariable pm (PrimaryKeyValue pm) (PrimaryKey pm) = Inr pkv \<and>
         length npkv = length (NonPKValues pm) \<and>
         (\<forall>i<length npkv.
            convertVariable pm (NonPKValues pm ! i) (NonPKColumns pm ! i) = Inr (npkv ! i)) \<and>
         queryParams call = [pkv] @ npkv @ npkv @ [pkv]"
    by auto
next
  assume s: "Save pm = Inr call"
    and sc: "\<forall>v \<in> set (PrimaryKeyValue pm # NonPKValues pm). TypeOf v \<noteq> Some Slice"
  from s obtain pkv npkv q where
      pk: "convertVariable pm (PrimaryKeyValue pm) (PrimaryKey pm) = Inr pkv"
      and np: "convertVariables pm = Inr npkv"
      and call: "call = Query (Model pm) q ([pkv] @ npkv @ npkv @ [pkv])"
    using Save_Inr by blast
  from pk sc have "pkv = PrimaryKeyValue pm"
    using convertVariable_Inr_nonnil [OF pk] by (simp add: convertVariable_nonnil)
  moreover have "npkv = NonPKValues pm"
  proof (rule nth_equalityI)
    show "length npkv = length (NonPKValues pm)"
      using np by (rule convertVariables_elements)
  next
    fix i assume i: "i < length npkv"
    then have e: "convertVariable pm (NonPKValues pm ! i) (NonPKColumns pm ! i) = Inr (npkv ! i)"
      using np by (simp add: convertVariables_elements)
    from i np have "NonPKValues pm ! i \<in> set (NonPKValues pm)"
      by (simp add: convertVariables_elements(1))
    with sc have "TypeOf (NonPKValues pm ! i) \<noteq> Some Slice" by simp
    with e show "npkv ! i = NonPKValues pm ! i"
      using convertVariable_Inr_nonnil [OF e] by (simp add: convertVariable_nonnil)
  qed
  ultimately show "queryParams call =
        [PrimaryKeyValue pm] @ NonPKValues pm @ NonPKValues pm @ [PrimaryKeyValue pm]"
    using call by simp
next
  assume "PrimaryKeyValue pm \<noteq> NilIface \<and> NilIface \<notin> set (NonPKValues pm) \<and>
    length (NonPKValues pm) \<le> length (NonPKColumns pm) \<and>
    nat (sint (ColumnCount pm - 1)) \<le> length (NonPKColumns pm)"
  then show "\<exists>c. Save pm = Inr c" by (simp add: Save_total)
qed

theorem Save_parameter_order_witness:
  "Save (Bar (1::int) ''n'' 2 id) =
     Inr (Query (Model (Bar 1 ''n'' 2 id))
            (''INSERT INTO foo.bars (id, name, value) '' @ lineBreak @
             ''VALUES (?, ?, ?) '' @ lineBreak @
             ''ON CONFLICT (id) '' @ lineBreak @
             ''DO UPDATE'' @ lineBreak @
             ''SET name = ?, value = ? '' @ lineBreak @
             ''WHERE bars.id = ?'')
            [Dyn Array 1, StringValue ''n'', Dyn IntKind 2,
             StringValue ''n'', Dyn IntKind 2, Dyn Array 1]) \<and>
   queryParams (Query (Model (Bar 1 ''n'' 2 id))
            (''INSERT INTO foo.bars (id, name, value) '' @ lineBreak @
             ''VALUES (?, ?, ?) '' @ lineBreak @
             ''ON CONFLICT (id) '' @ lineBreak @
             ''DO UPDATE'' @ lineBreak @
             ''SET name = ?, value = ? '' @ lineBreak @
             ''WHERE bars.id = ?'')
            [Dyn Array 1, StringValue ''n'', Dyn IntKind 2,
             StringValue ''n'', Dyn IntKind 2, Dyn Array 1]) =
     [PrimaryKeyValue (Bar (1::int) ''n'' 2 id)] @ NonPKValues (Bar (1::int) ''n'' 2 id) @
     NonPKValues (Bar (1::int) ''n'' 2 id) @ [PrimaryKeyValue (Bar (1::int) ''n'' 2 id)]"
proof -
  let ?B = "Bar (1::int) ''n'' 2 id"
  let ?call = "Query (Model ?B)
            (''INSERT INTO foo.bars (id, name, value) '' @ lineBreak @
             ''VALUES (?, ?, ?) '' @ lineBreak @
             ''ON CONFLICT (id) '' @ lineBreak @
             ''DO UPDATE'' @ lineBreak @
             ''SET name = ?, value = ? '' @ lineBreak @
             ''WHERE bars.id = ?'')
            [Dyn Array 1, StringValue ''n'', Dyn IntKind 2,
             StringValue ''n'', Dyn IntKind 2, Dyn Array 1]"
  have s: "Save ?B = Inr ?call"
    by (simp add: Save_def convertVariables_def convertVariable_def createSaveQuery_closed
        Bar_def eval_nat_numeral)
  have sc: "\<forall>v \<in> set (PrimaryKeyValue ?B # NonPKValues ?B). TypeOf v \<noteq> Some Slice"
    by (simp add: Bar_def)
  from Save_parameter_order [of ?B ?call] s sc
  have "queryParams ?call =
     [PrimaryKeyValue ?B] @ NonPKValues ?B @ NonPKValues ?B @ [PrimaryKeyValue ?B]"
    by blast
  with s show ?thesis by blast
qed

text \<open>
  Claim C10: \<open>convertVariable\<close> panics on the nil interface (a nil dereference in
  \<open>rt.Kind()\<close>) and on no other value. So when the primary-key value or one of the
  non-key values is nil, \<open>Save\<close> panics while it marshals the values, before
  \<open>createSaveQuery\<close> is called and before anything is handed to the transaction. The
  panic is the nil dereference when \<open>NonPKColumns\<close> has a name for every value;
  otherwise the index into \<open>NonPKColumns\<close> may panic first.
\<close>

theorem Save_nil_panics:
  "convertVariable pm NilIface c = Inl NilDereference \<and>
   (v \<noteq> NilIface \<longrightarrow> (\<exists>w. convertVariable pm v c = Inr w)) \<and>
   (PrimaryKeyValue pm = NilIface \<or> NilIface \<in> set (NonPKValues pm) \<longrightarrow>
      (\<exists>e. Save pm = Inl e \<and>
         (convertVariable pm (PrimaryKeyValue pm) (PrimaryKey pm) = Inl e \<or>
          convertVariables pm = Inl e))) \<and>
   ((PrimaryKeyValue pm = NilIface \<or> NilIface \<in> set (NonPKValues pm)) \<and>
    length (NonPKValues pm) \<le> length (NonPKColumns pm) \<longrightarrow>
      Save pm = Inl NilDereference)"
proof (intro conjI impI)
  show "convertVariable pm NilIface c = Inl NilDereference"
    by (rule convertVariable_nil)
next
  assume "v \<noteq> NilIface"
  then show "\<exists>w. convertVariable pm v c = Inr w"
    by (simp add: convertVariable_nonnil)
next
  assume nil: "PrimaryKeyValue pm = NilIface \<or> NilIface \<in> set (NonPKValues pm)"
  show "\<exists>e. Save pm = Inl e \<and>
         (convertVariable pm (PrimaryKeyValue pm) (PrimaryKey pm) = Inl e \<or>
          convertVariables pm = Inl e)"
  proof (cases "PrimaryKeyValue pm = NilIface")
    case True
    then show ?thesis by (simp add: Save_def convertVariable_nil)
  next
    case False
    with nil have "NilIface \<in> set (NonPKValues pm)" by simp
    then have "\<not> (\<exists>r. convertVariables pm = Inr r)"
      by (simp add: convertVariables_Inr)
    then obtain e where e: "convertVariables pm = Inl e"
      by (cases "convertVariables pm") auto
    with False show ?thesis
      by (simp add: Save_def convertVariable_nonnil)
  qed
next
  assume a: "(PrimaryKeyValue pm = NilIface \<or> NilIface \<in> set (NonPKValues pm)) \<and>
    length (NonPKValues pm) \<le> length (NonPKColumns pm)"
  show "Save pm = Inl NilDereference"
  proof (cases "PrimaryKeyValue pm = NilIface")
    case True
    then show ?thesis by (simp add: Save_def convertVariable_nil)
  next
    case False
    with a have "NilIface \<in> set (NonPKValues pm)" by simp
    with a have "convertVariables pm = Inl NilDereference"
      by (simp add: convertVariables_def convertVariables_loop_nil)
    with False show ?thesis
      by (simp add: Save_def convertVariable_nonnil)
  qed
qed

theorem Save_nil_panics_witness:
  "NilIface \<in> set (NonPKValues ((Bar (1::int) ''n'' 2 id)\<lparr>NonPKValues := [StringValue ''n'', NilIface]\<rparr>)) \<and>
   length (NonPKValues ((Bar (1::int) ''n'' 2 id)\<lparr>NonPKValues := [StringValue ''n'', NilIface]\<rparr>))
     \<le> length (NonPKColumns ((Bar (1::int) ''n'' 2 id)\<lparr>NonPKValues := [StringValue ''n'', NilIface]\<rparr>)) \<and>
   Save ((Bar (1::int) ''n'' 2 id)\<lparr>NonPKValues := [StringValue ''n'', NilIface]\<rparr>) =
     Inl NilDereference \<and>
   Save ((Bar (1::int) ''n'' 2 id)\<lparr>PrimaryKeyValue := NilIface\<rparr>) = Inl NilDereference"
proof -
  let ?R = "(Bar (1::int) ''n'' 2 id)\<lparr>NonPKValues := [StringValue ''n'', NilIface]\<rparr>"
  let ?Q = "(Bar (1::int) ''n'' 2 id)\<lparr>PrimaryKeyValue := NilIface\<rparr>"
  have h: "NilIface \<in> set (NonPKValues ?R)" "length (NonPKValues ?R) \<le> length (NonPKColumns ?R)"
    by (simp_all add: Bar_def)
  with Save_nil_panics [of ?R "''value''" NilIface] have "Save ?R = Inl NilDereference"
    by blast
  moreover have "PrimaryKeyValue ?Q = NilIface" "length (NonPKValues ?Q) \<le> length (NonPKColumns ?Q)"
    by (simp_all add: Bar_def)
  with Save_nil_panics [of ?Q "''id''" NilIface] have "Save ?Q = Inl NilDereference"
    by blast
  ultimately show ?thesis using h by blast
qed

end
